theory Spec2Isabelle
  imports Main "HOL-Library.AList"
begin

section \<open>The world outside \<^verbatim>\<open>index.js\<close>\<close>

text \<open>
  The server of \<^verbatim>\<open>src/index.js\<close> works on the file system and calls three libraries:
  sharp (the WebP encoder), archiver (the ZIP writer) and Express (delivery of a file).
  A path is a directory together with an entry name; the file system keeps, for every
  regular file, its size in bytes. What the libraries answer is not decided by the
  program, so it is a parameter of the model (\<open>env\<close>): every proof holds for every
  encoder, every archiver and every pattern of failing deletions.
\<close>

type_synonym path = "string \<times> string"

record world =
  files :: "(path \<times> nat) list"
  dirs :: "string list"
  calls :: "int list"
  errlog :: "string list"

text \<open>
  \<open>files\<close>: the regular files and their sizes (an association list, first binding wins);
  \<open>dirs\<close>: the directories that exist; \<open>calls\<close>: the quality of every encode that
  sharp was asked for, oldest first; \<open>errlog\<close>: the lines written by \<^verbatim>\<open>console.error\<close>.
\<close>

record env =
  sharp_webp :: "path \<Rightarrow> int \<Rightarrow> string + nat"
  unlink_fault :: "path \<Rightarrow> string option"
  mkdir_fault :: "string \<Rightarrow> string option"
  stem :: "string \<Rightarrow> string"
  date_now :: string
  archiver_zip :: "string \<Rightarrow> string + nat"
  res_download :: "path \<Rightarrow> string option"

text \<open>
  \<open>sharp_webp inp q\<close>: encoding the file \<open>inp\<close> at quality \<open>q\<close> either raises (the message)
  or writes that many bytes; \<open>unlink_fault p\<close>: the message with which deleting the existing
  file \<open>p\<close> is rejected (EPERM, EBUSY), if it is, a rejection the code itself provides for
  at lines 99 and 210; \<open>mkdir_fault\<close>: the same for creating a directory; \<open>stem n\<close>:
  Node's \<^verbatim>\<open>path.basename(n, path.extname(n))\<close>; \<open>date_now\<close>: the decimal digits of
  \<^verbatim>\<open>Date.now()\<close>; \<open>archiver_zip d\<close>: zipping directory \<open>d\<close> raises or yields the
  archive's size; \<open>res_download p\<close>: the error of delivering \<open>p\<close>, if any.
\<close>

type_synonym 'a io = "(string + 'a) \<times> world"

definition console_error :: "string \<Rightarrow> world \<Rightarrow> world" where
  "console_error m w = w\<lparr>errlog := errlog w @ [m]\<rparr>"

definition ENOENT :: string where
  "ENOENT = ''ENOENT: no such file or directory''"

definition stat :: "path \<Rightarrow> world \<Rightarrow> nat io" where
  "stat p w = (case map_of (files w) p of
                 None \<Rightarrow> (Inl ENOENT, w)
               | Some n \<Rightarrow> (Inr n, w))"

definition unlink :: "env \<Rightarrow> path \<Rightarrow> world \<Rightarrow> unit io" where
  "unlink E p w = (case map_of (files w) p of
                     None \<Rightarrow> (Inl ENOENT, w)
                   | Some n \<Rightarrow>
                       (case unlink_fault E p of
                          Some m \<Rightarrow> (Inl m, w)
                        | None \<Rightarrow> (Inr (), w\<lparr>files := AList.delete p (files w)\<rparr>)))"

text \<open>\<^verbatim>\<open>sharp(inputPath).webp({quality, ...}).toFile(outputPath)\<close>\<close>

definition toFile :: "env \<Rightarrow> path \<Rightarrow> int \<Rightarrow> path \<Rightarrow> world \<Rightarrow> unit io" where
  "toFile E inputPath quality outputPath w =
     (let w1 = w\<lparr>calls := calls w @ [quality]\<rparr> in
      case sharp_webp E inputPath quality of
        Inl m \<Rightarrow> (Inl m, w1)
      | Inr n \<Rightarrow> (Inr (), w1\<lparr>files := AList.update outputPath n (files w1)\<rparr>))"

section \<open>The quality search: \<^verbatim>\<open>optimizeWebP\<close>\<close>

definition maxAttempts :: nat where
  "maxAttempts = 3"

definition too_small :: string where
  "too_small = ''Converted file size too small''"

text \<open>
  The \<^verbatim>\<open>do ... while (attempts < maxAttempts)\<close> loop of lines 114 to 140, entered with the
  current \<open>quality\<close> and \<open>attempts\<close>. Its value is \<open>convertedSize\<close> when the loop is left,
  or the message of what was thrown.
\<close>

function search :: "env \<Rightarrow> path \<Rightarrow> path \<Rightarrow> nat \<Rightarrow> int \<Rightarrow> nat \<Rightarrow> world \<Rightarrow> nat io" where
  "search E inputPath outputPath originalSize quality attempts w =
     (case toFile E inputPath quality outputPath w of
        (Inl m, w1) \<Rightarrow> (Inl m, w1)
      | (Inr _, w1) \<Rightarrow>
          (case stat outputPath w1 of
             (Inl m, w2) \<Rightarrow> (Inl m, w2)
           | (Inr convertedSize, w2) \<Rightarrow>
               if convertedSize \<ge> originalSize \<and> quality > 10 \<and> attempts < maxAttempts then
                 (case unlink E outputPath w2 of
                    (Inl m, w3) \<Rightarrow> (Inl m, w3)
                  | (Inr _, w3) \<Rightarrow>
                      if Suc attempts < maxAttempts
                      then search E inputPath outputPath originalSize (quality - 20) (Suc attempts) w3
                      else (Inr convertedSize, w3))
               else if convertedSize < 512 then (Inl too_small, w2)
               else (Inr convertedSize, w2)))"
  by pat_completeness auto
termination
  by (relation "measure (\<lambda>(E, inputPath, outputPath, originalSize, quality, attempts, w).
                  maxAttempts - attempts)") auto

text \<open>Line 109: \<^verbatim>\<open>let quality = isWebP ? 50 : 70\<close>.\<close>

definition startQuality :: "bool \<Rightarrow> int" where
  "startQuality isWebP = (if isWebP then 50 else 70)"

definition optimizeWebP :: "env \<Rightarrow> path \<Rightarrow> path \<Rightarrow> nat \<Rightarrow> bool \<Rightarrow> world \<Rightarrow> nat io" where
  "optimizeWebP E inputPath outputPath originalSize isWebP w =
     (case search E inputPath outputPath originalSize (startQuality isWebP) 0 w of
        (Inl m, w1) \<Rightarrow> (Inl m, w1)
      | (Inr convertedSize, w1) \<Rightarrow>
          if convertedSize \<ge> originalSize then
            (case toFile E inputPath 20 outputPath w1 of
               (Inl m, w2) \<Rightarrow> (Inl m, w2)
             | (Inr _, w2) \<Rightarrow> stat outputPath w2)
          else (Inr convertedSize, w1))"

section \<open>The conversion endpoint: \<^verbatim>\<open>app.post('/convert')\<close>\<close>

text \<open>An uploaded file as multer hands it over (\<^verbatim>\<open>req.files\<close>).\<close>

record upload =
  originalname :: string
  path :: path
  size_declared :: nat
  mimetype :: string

text \<open>
  One entry of \<^verbatim>\<open>fileSizes\<close>. The keys \<^verbatim>\<open>skipped\<close>, \<^verbatim>\<open>error\<close> and \<^verbatim>\<open>errorDetail\<close> are
  absent from some of the objects the code pushes; an absent flag reads as false.
\<close>

record outcome =
  originalName :: string
  originalSize :: nat
  convertedSize :: nat
  skipped :: bool
  error :: bool
  errorDetail :: "string option"

datatype status = Converted | Skipped | Failed

definition status_of :: "outcome \<Rightarrow> status" where
  "status_of f = (if error f then Failed else if skipped f then Skipped else Converted)"

record job =
  fileSizes :: "outcome list"
  downloadUrls :: "string list"
  fsys :: world

text \<open>The \<^verbatim>\<open>catch (err)\<close> block of lines 200 to 211; \<open>m\<close> is \<^verbatim>\<open>err.message\<close>.\<close>

definition on_error :: "env \<Rightarrow> upload \<Rightarrow> string \<Rightarrow> job \<Rightarrow> job" where
  "on_error E file m j =
     (let w1 = console_error (''Error processing '' @ originalname file @ '': '' @ m) (fsys j);
          failed = \<lparr>originalName = originalname file,
                    originalSize = size_declared file,
                    convertedSize = size_declared file,
                    skipped = False, error = True, errorDetail = Some m\<rparr>
      in \<lparr>fileSizes = fileSizes j @ [failed],
          downloadUrls = downloadUrls j @ [''''],
          fsys = (case unlink E (path file) w1 of
                    (Inl m', w2) \<Rightarrow> console_error (''Cleanup failed: '' @ m') w2
                  | (Inr _, w2) \<Rightarrow> w2)\<rparr>)"

text \<open>Line 199, the last statement inside the \<^verbatim>\<open>try\<close> block.\<close>

definition cleanup :: "env \<Rightarrow> upload \<Rightarrow> job \<Rightarrow> job" where
  "cleanup E file j =
     (case unlink E (path file) (fsys j) of
        (Inl m, w) \<Rightarrow> on_error E file m (j\<lparr>fsys := w\<rparr>)
      | (Inr _, w) \<Rightarrow> j\<lparr>fsys := w\<rparr>)"

definition outputFilename :: "env \<Rightarrow> upload \<Rightarrow> string" where
  "outputFilename E file = stem E (originalname file) @ ''.webp''"

text \<open>The body of the \<^verbatim>\<open>for (const file of req.files)\<close> loop, lines 179 to 211.\<close>

definition process_file :: "env \<Rightarrow> string \<Rightarrow> string \<Rightarrow> job \<Rightarrow> upload \<Rightarrow> job" where
  "process_file E sessionId outputDir j file =
     (let outputPath = (outputDir, outputFilename E file) in
      case stat (path file) (fsys j) of
        (Inl m, w1) \<Rightarrow> on_error E file m (j\<lparr>fsys := w1\<rparr>)
      | (Inr osize, w1) \<Rightarrow>
          (let isWebP = (mimetype file = ''image/webp'') in
           case optimizeWebP E (path file) outputPath osize isWebP w1 of
             (Inl m, w2) \<Rightarrow> on_error E file m (j\<lparr>fsys := w2\<rparr>)
           | (Inr csize, w2) \<Rightarrow>
               if csize \<ge> osize then
                 (case unlink E outputPath w2 of
                    (Inl m, w3) \<Rightarrow> on_error E file m (j\<lparr>fsys := w3\<rparr>)
                  | (Inr _, w3) \<Rightarrow>
                      cleanup E file
                        \<lparr>fileSizes = fileSizes j @
                           [\<lparr>originalName = originalname file, originalSize = osize,
                             convertedSize = osize, skipped = True, error = False,
                             errorDetail = None\<rparr>],
                         downloadUrls = downloadUrls j @ [''''],
                         fsys = w3\<rparr>)
               else
                 cleanup E file
                   \<lparr>fileSizes = fileSizes j @
                      [\<lparr>originalName = originalname file, originalSize = osize,
                        convertedSize = csize, skipped = False, error = False,
                        errorDetail = None\<rparr>],
                    downloadUrls = downloadUrls j @
                      [''/download/'' @ sessionId @ ''/'' @ outputFilename E file],
                    fsys = w2\<rparr>))"

definition ensureDir :: "env \<Rightarrow> string \<Rightarrow> world \<Rightarrow> unit io" where
  "ensureDir E dir w =
     (case mkdir_fault E dir of
        Some m \<Rightarrow> (Inl m, w)
      | None \<Rightarrow> (Inr (), w\<lparr>dirs := List.insert dir (dirs w)\<rparr>))"

datatype response =
    Conversion "string list" string "outcome list"
  | ErrorJson nat string
  | Download path string

text \<open>
  \<open>Conversion downloadUrls zipDownloadUrl fileSizes\<close> is the body sent with status 200,
  \<open>ErrorJson code message\<close> the body \<^verbatim>\<open>{ error: message }\<close> sent with that status, and
  \<open>Download p name\<close> the file \<open>p\<close> sent as the attachment \<open>name\<close>.
\<close>

text \<open>\<^verbatim>\<open>req.headers['x-session-id'] || `session_${Date.now()}`\<close>: an empty header is falsy.\<close>

definition sessionId_of :: "env \<Rightarrow> string option \<Rightarrow> string" where
  "sessionId_of E hdr =
     (case hdr of
        None \<Rightarrow> ''session_'' @ date_now E
      | Some s \<Rightarrow> if s = [] then ''session_'' @ date_now E else s)"

text \<open>Line 214.\<close>

definition zipDownloadUrl :: "string \<Rightarrow> outcome list \<Rightarrow> string" where
  "zipDownloadUrl sessionId fs =
     (if fs \<noteq> [] \<and> \<not> list_all (\<lambda>f. error f \<or> skipped f) fs
      then ''/download-zip/'' @ sessionId else '''')"

text \<open>
  The handler. \<^verbatim>\<open>path.join(__dirname, 'public', sessionId)\<close> is the directory named
  \<open>''public/'' @ sessionId\<close>.
\<close>

definition convert :: "env \<Rightarrow> string option \<Rightarrow> upload list \<Rightarrow> world \<Rightarrow> response \<times> world" where
  "convert E hdr req_files w =
     (if req_files = [] then (ErrorJson 400 ''No files uploaded'', w)
      else
        (let sessionId = sessionId_of E hdr;
             outputDir = ''public/'' @ sessionId
         in case ensureDir E outputDir w of
              (Inl m, w1) \<Rightarrow>
                (ErrorJson 500 (''Server error: '' @ m),
                 console_error (''Conversion endpoint error: '' @ m) w1)
            | (Inr _, w1) \<Rightarrow>
                (let j = foldl (process_file E sessionId outputDir)
                           \<lparr>fileSizes = [], downloadUrls = [], fsys = w1\<rparr> req_files
                 in (Conversion (downloadUrls j) (zipDownloadUrl sessionId (fileSizes j))
                       (fileSizes j),
                     fsys j))))"

section \<open>The archive endpoint: \<^verbatim>\<open>app.get('/download-zip/:session')\<close>\<close>

definition readdir :: "string \<Rightarrow> world \<Rightarrow> (string list) io" where
  "readdir dir w =
     (if dir \<in> set (dirs w)
      then (Inr (remdups (map (snd \<circ> fst) (filter (\<lambda>e. fst (fst e) = dir) (files w)))), w)
      else (Inl ENOENT, w))"

text \<open>\<^verbatim>\<open>fs.createWriteStream(zipPath)\<close> opens the file for writing, which creates it.\<close>

definition createWriteStream :: "path \<Rightarrow> world \<Rightarrow> world" where
  "createWriteStream p w = w\<lparr>files := AList.update p 0 (files w)\<rparr>"

text \<open>
  Lines 75 to 92: the archiver writes the directory into the stream; \<open>zipPromise\<close>
  resolves when the stream closes and rejects on the archiver's \<^verbatim>\<open>error\<close> event.
\<close>

definition zipPromise :: "env \<Rightarrow> string \<Rightarrow> path \<Rightarrow> world \<Rightarrow> unit io" where
  "zipPromise E sessionDir zipPath w =
     (case archiver_zip E sessionDir of
        Inl m \<Rightarrow> (Inl m, console_error (''Archiver error: '' @ m) w)
      | Inr n \<Rightarrow> (Inr (), w\<lparr>files := AList.update zipPath n (files w)\<rparr>))"

text \<open>Line 99: \<^verbatim>\<open>fsPromises.unlink(zipPath).catch(...)\<close>.\<close>

definition unlink_zip :: "env \<Rightarrow> path \<Rightarrow> world \<Rightarrow> world" where
  "unlink_zip E zipPath w =
     (case unlink E zipPath w of
        (Inl m, w1) \<Rightarrow> console_error (''Failed to delete ZIP: '' @ m) w1
      | (Inr _, w1) \<Rightarrow> w1)"

definition download_zip :: "env \<Rightarrow> string \<Rightarrow> world \<Rightarrow> response \<times> world" where
  "download_zip E session w =
     (let sessionDir = ''public/'' @ session;
          zipPath = (''public'', session @ ''.zip'')
      in case readdir sessionDir w of
           (Inl m, w1) \<Rightarrow>
             (ErrorJson 500 (''Failed to create ZIP: '' @ m),
              console_error (''ZIP creation error: '' @ m) w1)
         | (Inr entries, w1) \<Rightarrow>
             if entries = [] then (ErrorJson 404 ''No files available to zip'', w1)
             else
               (case zipPromise E sessionDir zipPath (createWriteStream zipPath w1) of
                  (Inl m, w2) \<Rightarrow>
                    (ErrorJson 500 (''Failed to create ZIP: '' @ m),
                     console_error (''ZIP creation error: '' @ m) w2)
                | (Inr _, w2) \<Rightarrow>
                    (case res_download E zipPath of
                       Some m \<Rightarrow>
                         (ErrorJson 500 ''Failed to download ZIP'',
                          unlink_zip E zipPath (console_error (''ZIP download error: '' @ m) w2))
                     | None \<Rightarrow>
                         (Download zipPath ''converted_images.zip'',
                          unlink_zip E zipPath w2))))"

section \<open>Auxiliary notions and concrete runs\<close>

text \<open>
  The world after a retried attempt of the search: the encode at quality \<open>q\<close> is on
  record, the \<open>s\<close> bytes it wrote to \<open>out\<close> are deleted again.
\<close>

definition retried :: "path \<Rightarrow> int \<Rightarrow> nat \<Rightarrow> world \<Rightarrow> world" where
  "retried out q s w =
     w\<lparr>calls := calls w @ [q], files := AList.delete out (AList.update out s (files w))\<rparr>"

text \<open>
  An environment in which nothing fails but, possibly, the encoder: \<open>enc q\<close> is what sharp
  answers at quality \<open>q\<close>, whatever the input file.
\<close>

definition quiet_env :: "(int \<Rightarrow> string + nat) \<Rightarrow> env" where
  "quiet_env enc =
     \<lparr>sharp_webp = (\<lambda>p. enc), unlink_fault = (\<lambda>p. None), mkdir_fault = (\<lambda>d. None),
      stem = takeWhile (\<lambda>c. c \<noteq> CHR ''.''), date_now = ''1700000000000'',
      archiver_zip = (\<lambda>d. Inr 4096), res_download = (\<lambda>p. None)\<rparr>"

text \<open>
  Three uploads, a JPEG of 1,000,000 bytes, a PNG of 200 bytes and a WebP of 2,000 bytes,
  and the disk that holds their temporary files.
\<close>

definition photo :: upload where
  "photo = \<lparr>originalname = ''photo.jpg'', path = (''uploads'', ''tmp1''),
            size_declared = 1000000, mimetype = ''image/jpeg''\<rparr>"

definition icon :: upload where
  "icon = \<lparr>originalname = ''icon.png'', path = (''uploads'', ''tmp2''),
           size_declared = 200, mimetype = ''image/png''\<rparr>"

definition logo :: upload where
  "logo = \<lparr>originalname = ''logo.webp'', path = (''uploads'', ''tmp3''),
           size_declared = 2000, mimetype = ''image/webp''\<rparr>"

definition disk :: world where
  "disk = \<lparr>files = [((''uploads'', ''tmp1''), 1000000), ((''uploads'', ''tmp2''), 200),
                    ((''uploads'', ''tmp3''), 2000)],
           dirs = [''uploads'', ''public''], calls = [], errlog = []\<rparr>"

text \<open>The same environment, except that the temporary file of \<open>photo\<close> cannot be deleted.\<close>

definition locked_env :: "(int \<Rightarrow> string + nat) \<Rightarrow> env" where
  "locked_env enc =
     (quiet_env enc)
       \<lparr>unlink_fault := (\<lambda>p. if p = (''uploads'', ''tmp1'')
                              then Some ''EPERM: operation not permitted'' else None)\<rparr>"

text \<open>A disk on which session \<open>s1\<close> holds one converted file.\<close>

definition served :: world where
  "served = \<lparr>files = [((''public/s1'', ''photo.webp''), 400000)],
             dirs = [''uploads'', ''public'', ''public/s1''], calls = [], errlog = []\<rparr>"

text \<open>
  What an entry of \<^verbatim>\<open>fileSizes\<close> with the \<^verbatim>\<open>error\<close> flag and its entry of \<^verbatim>\<open>downloadUrls\<close>
  owe to the upload \<open>f\<close> they come from: its name, its declared size twice, no URL.
\<close>

definition declared :: "upload \<Rightarrow> outcome \<Rightarrow> string \<Rightarrow> bool" where
  "declared f e u =
     (if error e
      then originalName e = originalname f \<and> originalSize e = size_declared f \<and>
           convertedSize e = size_declared f \<and> u = ''''
      else True)"

section \<open>Evaluation and basic facts\<close>

declare search.simps [simp del]

lemmas run_defs =
  convert_def quiet_env_def locked_env_def photo_def icon_def logo_def disk_def served_def
  sessionId_of_def ensureDir_def
  process_file_def outputFilename_def stat_def optimizeWebP_def startQuality_def toFile_def
  unlink_def
  maxAttempts_def on_error_def cleanup_def console_error_def zipDownloadUrl_def
  too_small_def status_of_def ENOENT_def Let_def

lemmas zip_defs =
  download_zip_def readdir_def createWriteStream_def zipPromise_def unlink_zip_def

text \<open>The loop body with the file-system primitives unfolded.\<close>

lemma search_unfold:
  "search E inp out os q a w =
     (case sharp_webp E inp q of
        Inl m \<Rightarrow> (Inl m, w\<lparr>calls := calls w @ [q]\<rparr>)
      | Inr s \<Rightarrow>
          if os \<le> s \<and> 10 < q \<and> a < maxAttempts then
            (case unlink_fault E out of
               Some m \<Rightarrow>
                 (Inl m, w\<lparr>calls := calls w @ [q], files := AList.update out s (files w)\<rparr>)
             | None \<Rightarrow>
                 if Suc a < maxAttempts
                 then search E inp out os (q - 20) (Suc a) (retried out q s w)
                 else (Inr s, retried out q s w))
          else if s < 512
          then (Inl too_small,
                w\<lparr>calls := calls w @ [q], files := AList.update out s (files w)\<rparr>)
          else (Inr s, w\<lparr>calls := calls w @ [q], files := AList.update out s (files w)\<rparr>))"
  by (subst search.simps)
     (simp add: toFile_def stat_def unlink_def update_conv' retried_def Let_def
           split: sum.splits option.splits)

text \<open>Induction along the retries of the search.\<close>

lemma search_rule [case_names attempt]:
  assumes "\<And>q a w.
     (\<And>s. sharp_webp E inp q = Inr s \<Longrightarrow> os \<le> s \<Longrightarrow> 10 < q \<Longrightarrow>
          unlink_fault E out = None \<Longrightarrow> Suc a < maxAttempts \<Longrightarrow>
          P (q - 20) (Suc a) (retried out q s w)) \<Longrightarrow> P q a w"
  shows "P q a w"
proof (induction "maxAttempts - a" arbitrary: q a w rule: less_induct)
  case less
  show ?case
    apply (rule assms)
    apply (rule less)
    apply simp
    done
qed

text \<open>
  When the loop is left normally, the output file holds \<open>convertedSize\<close> bytes, or it
  has been deleted for a retry that did not take place and the size is no improvement.
\<close>

lemma search_files:
  "search E inp out os q a w = (Inr cs, w') \<Longrightarrow>
     (os \<le> cs \<and> map_of (files w') out = None) \<or> map_of (files w') out = Some cs"
proof (induction q a w rule: search_rule [where E = E and inp = inp and os = os and out = out])
  case (attempt q a w)
  from attempt.prems show ?case
    by (subst (asm) search_unfold)
       (auto simp: update_conv' delete_conv' retried_def
             split: sum.splits option.splits if_splits dest: attempt.IH)
qed

lemma optimizeWebP_file:
  "optimizeWebP E inp out os isWebP w = (Inr cs, w') \<Longrightarrow> map_of (files w') out = Some cs"
  by (auto simp: optimizeWebP_def toFile_def stat_def update_conv' Let_def
           split: prod.splits sum.splits if_splits option.splits dest: search_files)

text \<open>
  The encodes of the loop: between one and three, each 20 below the one before.
\<close>

lemma search_calls:
  "\<exists>n. 1 \<le> n \<and> n \<le> max 1 (maxAttempts - a) \<and>
       calls (snd (search E inp out os q a w)) = calls w @ map (\<lambda>i. q - 20 * int i) [0..<n]"
proof (induction q a w rule: search_rule [where E = E and inp = inp and os = os and out = out])
  case (attempt q a w)
  have one: "\<exists>n\<ge>1. n \<le> max 1 (maxAttempts - a) \<and> [q] = map (\<lambda>i. q - 20 * int i) [0..<n]"
    by (rule exI [of _ 1]) simp
  show ?case
  proof (cases "sharp_webp E inp q")
    case (Inl m)
    then show ?thesis using one by (subst search_unfold) simp
  next
    case (Inr s)
    show ?thesis
    proof (cases "os \<le> s \<and> 10 < q \<and> unlink_fault E out = None \<and> Suc a < maxAttempts")
      case True
      then obtain n where n: "1 \<le> n" "n \<le> max 1 (maxAttempts - Suc a)"
        "calls (snd (search E inp out os (q - 20) (Suc a) (retried out q s w))) =
           calls (retried out q s w) @ map (\<lambda>i. q - 20 - 20 * int i) [0..<n]"
        using attempt.IH [OF Inr] by blast
      have "map (\<lambda>i. q - 20 * int i) [0..<Suc n] = q # map (\<lambda>i. q - 20 - 20 * int i) [0..<n]"
        by (simp add: map_upt_Suc del: upt_Suc)
      moreover have "Suc n \<le> max 1 (maxAttempts - a)"
        using n(2) True by (auto simp: max_def split: if_splits)
      ultimately show ?thesis
        using n True Inr
        apply (subst search_unfold)
        apply (simp add: retried_def del: upt_Suc)
        apply (rule exI [of _ "Suc n"])
        apply (simp del: upt_Suc)
        done
    next
      case False
      with Inr one show ?thesis
        by (subst search_unfold) (auto simp: retried_def split: option.splits)
    qed
  qed
qed

lemma search_calls0:
  "\<exists>n. 1 \<le> n \<and> n \<le> 3 \<and>
       calls (snd (search E inp out os q 0 w)) = calls w @ take n [q, q - 20, q - 40]"
proof -
  obtain n where n: "1 \<le> n" "n \<le> 3"
    "calls (snd (search E inp out os q 0 w)) = calls w @ map (\<lambda>i. q - 20 * int i) [0..<n]"
    using search_calls [of 0 E inp out os q w] by (auto simp: maxAttempts_def)
  from n(1,2) have "n = 1 \<or> n = 2 \<or> n = 3" by arith
  then have "map (\<lambda>i. q - 20 * int i) [0..<n] = take n [q, q - 20, q - 40]"
    by (auto simp: numeral_2_eq_2 numeral_3_eq_3)
  with n show ?thesis by auto
qed

text \<open>
  Three attempts that do not shrink the file, the third of them not failing the 512-byte
  test that it meets when it is made at quality 10: the encode at quality 20 follows and
  decides the result.
\<close>

lemma exhausted_then_fallback:
  assumes "sharp_webp E inp (startQuality isWebP) = Inr s0" "os \<le> s0"
    and "sharp_webp E inp (startQuality isWebP - 20) = Inr s1" "os \<le> s1"
    and "sharp_webp E inp (startQuality isWebP - 40) = Inr s2" "os \<le> s2"
    and "isWebP \<Longrightarrow> 512 \<le> s2"
    and "unlink_fault E out = None"
  shows "fst (optimizeWebP E inp out os isWebP w) = sharp_webp E inp 20"
    and "calls (snd (optimizeWebP E inp out os isWebP w)) =
           calls w @ [startQuality isWebP, startQuality isWebP - 20, startQuality isWebP - 40, 20]"
proof -
  let ?q = "startQuality isWebP"
  have q: "10 < ?q" "10 < ?q - 20" "?q - 20 - 20 = ?q - 40"
    by (simp_all add: startQuality_def)
  have third: "\<not> isWebP \<Longrightarrow> 10 < ?q - 40" "isWebP \<Longrightarrow> \<not> 10 < ?q - 40"
    by (simp_all add: startQuality_def)
  have s: "\<exists>w1. search E inp out os ?q 0 w = (Inr s2, w1) \<and>
              calls w1 = calls w @ [?q, ?q - 20, ?q - 40]"
  proof (cases isWebP)
    case True
    with assms q third show ?thesis
      apply (subst search_unfold)
      apply (simp add: maxAttempts_def)
      apply (subst search_unfold)
      apply (simp add: maxAttempts_def)
      apply (subst search_unfold)
      apply (simp add: maxAttempts_def retried_def)
      done
  next
    case False
    with assms q third show ?thesis
      apply (subst search_unfold)
      apply (simp add: maxAttempts_def)
      apply (subst search_unfold)
      apply (simp add: maxAttempts_def)
      apply (subst search_unfold)
      apply (simp add: maxAttempts_def retried_def)
      done
  qed
  then obtain w1 where w1: "search E inp out os ?q 0 w = (Inr s2, w1)"
    "calls w1 = calls w @ [?q, ?q - 20, ?q - 40]" by blast
  with assms(6) show "fst (optimizeWebP E inp out os isWebP w) = sharp_webp E inp 20"
    by (auto simp: optimizeWebP_def toFile_def stat_def Let_def update_conv' split: sum.splits)
  from w1 assms(6) show "calls (snd (optimizeWebP E inp out os isWebP w)) =
           calls w @ [?q, ?q - 20, ?q - 40, 20]"
    by (auto simp: optimizeWebP_def toFile_def stat_def Let_def update_conv' split: sum.splits)
qed

text \<open>What the handler's error and cleanup paths do to the two result lists and to absent files.\<close>

lemma unlink_keeps_absent:
  "unlink E p w = (r, w') \<Longrightarrow> map_of (files w) q = None \<Longrightarrow> map_of (files w') q = None"
  by (auto simp: unlink_def delete_conv' split: option.splits)

lemma on_error_lists:
  "fileSizes (on_error E file m j) =
     fileSizes j @ [\<lparr>originalName = originalname file, originalSize = size_declared file,
                     convertedSize = size_declared file, skipped = False, error = True,
                     errorDetail = Some m\<rparr>]"
  "downloadUrls (on_error E file m j) = downloadUrls j @ ['''']"
  by (simp_all add: on_error_def Let_def)

lemma on_error_keeps_absent:
  "map_of (files (fsys j)) q = None \<Longrightarrow> map_of (files (fsys (on_error E file m j))) q = None"
  by (auto simp: on_error_def Let_def console_error_def unlink_def delete_conv'
           split: prod.splits sum.splits option.splits)

lemma cleanup_lists:
  "\<exists>fs us. fileSizes (cleanup E file j) = fileSizes j @ fs \<and>
           downloadUrls (cleanup E file j) = downloadUrls j @ us"
  by (auto simp: cleanup_def on_error_lists split: prod.splits sum.splits)

lemma cleanup_keeps_absent:
  "map_of (files (fsys j)) q = None \<Longrightarrow> map_of (files (fsys (cleanup E file j))) q = None"
  by (auto simp: cleanup_def unlink_def delete_conv' intro!: on_error_keeps_absent
           split: prod.splits sum.splits option.splits)

text \<open>Every file appends to the two lists, in step; so does the whole batch.\<close>

lemma process_file_appends:
  "\<exists>es us. fileSizes (process_file E sid dir j f) = fileSizes j @ es \<and>
           downloadUrls (process_file E sid dir j f) = downloadUrls j @ us \<and>
           list_all2 (declared f) es us"
  by (simp add: process_file_def cleanup_def on_error_lists declared_def Let_def
           split: prod.splits sum.splits)

lemma batch_appends:
  "\<exists>es us. fileSizes (foldl (process_file E sid dir) j fs) = fileSizes j @ es \<and>
           downloadUrls (foldl (process_file E sid dir) j fs) = downloadUrls j @ us \<and>
           list_all2 (\<lambda>e u. list_ex (\<lambda>f. declared f e u) fs \<or> \<not> error e) es us"
proof (induction fs arbitrary: j)
  case Nil
  show ?case by simp
next
  case (Cons f fs)
  obtain es1 us1 where 1:
    "fileSizes (process_file E sid dir j f) = fileSizes j @ es1"
    "downloadUrls (process_file E sid dir j f) = downloadUrls j @ us1"
    "list_all2 (declared f) es1 us1"
    using process_file_appends [of E sid dir j f] by blast
  obtain es2 us2 where 2:
    "fileSizes (foldl (process_file E sid dir) (process_file E sid dir j f) fs) =
       fileSizes (process_file E sid dir j f) @ es2"
    "downloadUrls (foldl (process_file E sid dir) (process_file E sid dir j f) fs) =
       downloadUrls (process_file E sid dir j f) @ us2"
    "list_all2 (\<lambda>e u. list_ex (\<lambda>f. declared f e u) fs \<or> \<not> error e) es2 us2"
    using Cons.IH [of "process_file E sid dir j f"] by blast
  let ?P = "\<lambda>e u. list_ex (\<lambda>g. declared g e u) (f # fs) \<or> \<not> error e"
  have a: "list_all2 ?P es1 us1"
    using 1(3) by (rule list_all2_mono) simp
  have b: "list_all2 ?P es2 us2"
    using 2(3) by (rule list_all2_mono) auto
  from a b have "list_all2 ?P (es1 @ es2) (us1 @ us2)" by (rule list_all2_appendI)
  with 1 2 show ?case by simp
qed

text \<open>What a response with status 200 is made of.\<close>

lemma convert_200:
  assumes "convert E hdr req_files w = (Conversion urls zurl outs, w')"
  shows "outs = fileSizes (foldl (process_file E (sessionId_of E hdr) (''public/'' @ sessionId_of E hdr))
           \<lparr>fileSizes = [], downloadUrls = [],
             fsys = w\<lparr>dirs := List.insert (''public/'' @ sessionId_of E hdr) (dirs w)\<rparr>\<rparr> req_files)"
    and "urls = downloadUrls (foldl (process_file E (sessionId_of E hdr) (''public/'' @ sessionId_of E hdr))
           \<lparr>fileSizes = [], downloadUrls = [],
             fsys = w\<lparr>dirs := List.insert (''public/'' @ sessionId_of E hdr) (dirs w)\<rparr>\<rparr> req_files)"
    and "zurl = zipDownloadUrl (sessionId_of E hdr) outs"
    and "req_files \<noteq> []"
  using assms
  by (auto simp: convert_def ensureDir_def Let_def split: if_splits option.splits)

text \<open>
  An attempt of the loop that is reached through \<open>k\<close> retries and writes fewer than 512
  bytes without being retried itself ends the search with the error; an error of
  \<^verbatim>\<open>optimizeWebP\<close> becomes the file's one entry.
\<close>

lemma search_too_small:
  assumes "a + k < maxAttempts"
    and "\<forall>i<k. \<exists>s. sharp_webp E inp (q - 20 * int i) = Inr s \<and> os \<le> s \<and> 10 < q - 20 * int i"
    and "0 < k \<Longrightarrow> unlink_fault E out = None"
    and "sharp_webp E inp (q - 20 * int k) = Inr s"
    and "s < 512"
    and "s < os \<or> q - 20 * int k \<le> 10"
  shows "fst (search E inp out os q a w) = Inl too_small"
  using assms
proof (induction k arbitrary: q a w)
  case 0
  then show ?case
    by (subst search_unfold) auto
next
  case (Suc k)
  from Suc.prems(2) obtain s0 where s0: "sharp_webp E inp q = Inr s0" "os \<le> s0" "10 < q"
    by fastforce
  have nf: "unlink_fault E out = None" using Suc.prems(3) by simp
  have later: "\<forall>i<k. \<exists>s. sharp_webp E inp (q - 20 - 20 * int i) = Inr s \<and> os \<le> s \<and>
                 10 < q - 20 - 20 * int i"
  proof (intro allI impI)
    fix i assume "i < k"
    then have "Suc i < Suc k" by simp
    with Suc.prems(2) have "\<exists>s. sharp_webp E inp (q - 20 * int (Suc i)) = Inr s \<and> os \<le> s \<and>
                 10 < q - 20 * int (Suc i)" by blast
    then show "\<exists>s. sharp_webp E inp (q - 20 - 20 * int i) = Inr s \<and> os \<le> s \<and>
                 10 < q - 20 - 20 * int i"
      by (simp add: algebra_simps)
  qed
  have last: "sharp_webp E inp (q - 20 - 20 * int k) = Inr s" "s < os \<or> q - 20 - 20 * int k \<le> 10"
    using Suc.prems(4,6) by (simp_all add: algebra_simps)
  have "fst (search E inp out os (q - 20) (Suc a) (retried out q s0 w)) = Inl too_small"
    using Suc.prems(1) later nf last Suc.prems(5)
    by (intro Suc.IH) simp_all
  with s0 nf Suc.prems(1) show ?case
    by (subst search_unfold) simp
qed

lemma process_file_error:
  assumes "stat (path f) (fsys j) = (Inr osize, wa)"
    and "fst (optimizeWebP E (path f) (dir, outputFilename E f) osize
           (mimetype f = ''image/webp'') wa) = Inl m"
  shows "fileSizes (process_file E sid dir j f) =
           fileSizes j @ [\<lparr>originalName = originalname f, originalSize = size_declared f,
                           convertedSize = size_declared f, skipped = False, error = True,
                           errorDetail = Some m\<rparr>]"
    and "downloadUrls (process_file E sid dir j f) = downloadUrls j @ ['''']"
  using assms
  by (auto simp: process_file_def on_error_lists Let_def split: prod.splits sum.splits)

text \<open>An existing session directory without entries is answered with status 404.\<close>

lemma empty_session_404:
  "readdir (''public/'' @ session) w = (Inr [], w') \<Longrightarrow>
     download_zip E session w = (ErrorJson 404 ''No files available to zip'', w')"
  by (simp add: download_zip_def Let_def)

section \<open>Failed outcomes and the output file\<close>

text \<open>
  Claim C1: for every source file whose processing ends with status Failed, no output
  file for it remains in the session directory and the outcome's errorDetail is populated.

  The code does not keep the first half. A JPEG of 1,000,000 bytes whose encode at
  quality 70 yields 300 bytes makes \<^verbatim>\<open>optimizeWebP\<close> throw at line 136 without deleting
  what it has just written (the retry at line 131 and the skip at line 191 do delete it):
  the outcome is Failed with its errorDetail, and the 300 bytes stay in the session
  directory as \<^verbatim>\<open>photo.webp\<close>.
\<close>

theorem failed_outcome_leaves_output:
  "fst (convert (quiet_env (\<lambda>q. Inr 300)) (Some ''s1'') [photo] disk) =
     Conversion [''''] ''''
       [\<lparr>originalName = ''photo.jpg'', originalSize = 1000000, convertedSize = 1000000,
         skipped = False, error = True,
         errorDetail = Some ''Converted file size too small''\<rparr>]
   \<and> files (snd (convert (quiet_env (\<lambda>q. Inr 300)) (Some ''s1'') [photo] disk)) =
       [((''uploads'', ''tmp2''), 200), ((''uploads'', ''tmp3''), 2000),
        ((''public/s1'', ''photo.webp''), 300)]
   \<and> readdir ''public/s1'' (snd (convert (quiet_env (\<lambda>q. Inr 300)) (Some ''s1'') [photo] disk)) =
       (Inr [''photo.webp''], snd (convert (quiet_env (\<lambda>q. Inr 300)) (Some ''s1'') [photo] disk))"
  by (simp add: run_defs search_unfold readdir_def)

section \<open>The steps of the quality search\<close>

text \<open>
  Claim C3: the quality search follows exactly these steps. The initial quality is 50 if
  the source is already the target format and 70 otherwise; after an attempt whose
  resulting size is at least the original size, with quality above 10 and attempt below 3,
  the output is discarded, the quality is decremented by 20 and the attempt counter is
  incremented; if the search exhausts its attempts without producing a size below the
  original, exactly one more encode at fixed quality 20 is performed and whatever size it
  yields is returned to the caller, so at most 4 encodes occur per file.

  In the theorem: the encodes that \<^verbatim>\<open>optimizeWebP\<close> adds to the record are a non-empty
  prefix of start, start - 20, start - 40, followed by nothing or by the one encode at
  quality 20; a retried attempt leaves no output file and continues at quality - 20 with
  attempts + 1 (or leaves the loop when that was the third); a loop left with a size that
  is no improvement is followed by the encode at 20, whose answer, a size or an error, is
  the answer of \<^verbatim>\<open>optimizeWebP\<close>; a loop left with a smaller size returns it as it is;
  three attempts in a row that do not shrink the file (the third, when it is made at
  quality 10, of at least 512 bytes) are followed by the encode at 20, four encodes in
  all; and there are never more than four.
\<close>

theorem quality_search_steps:
  "(\<exists>n tl. 1 \<le> n \<and> n \<le> 3 \<and> (tl = [] \<or> tl = [20]) \<and>
      calls (snd (optimizeWebP E inp out os isWebP w)) =
        calls w @ take n [startQuality isWebP, startQuality isWebP - 20, startQuality isWebP - 40] @ tl)
   \<and> startQuality isWebP = (if isWebP then 50 else 70)
   \<and> (\<forall>q a v s. sharp_webp E inp q = Inr s \<and> os \<le> s \<and> 10 < q \<and> a < 3 \<and>
          unlink_fault E out = None \<longrightarrow>
          map_of (files (retried out q s v)) out = None \<and>
          search E inp out os q a v =
            (if Suc a < 3 then search E inp out os (q - 20) (Suc a) (retried out q s v)
             else (Inr s, retried out q s v)))
   \<and> (\<forall>cs w1. search E inp out os (startQuality isWebP) 0 w = (Inr cs, w1) \<and> os \<le> cs \<longrightarrow>
          fst (optimizeWebP E inp out os isWebP w) = sharp_webp E inp 20 \<and>
          calls (snd (optimizeWebP E inp out os isWebP w)) = calls w1 @ [20])
   \<and> (\<forall>cs w1. search E inp out os (startQuality isWebP) 0 w = (Inr cs, w1) \<and> cs < os \<longrightarrow>
          optimizeWebP E inp out os isWebP w = (Inr cs, w1))
   \<and> (\<forall>s0 s1 s2.
          sharp_webp E inp (startQuality isWebP) = Inr s0 \<and> os \<le> s0 \<and>
          sharp_webp E inp (startQuality isWebP - 20) = Inr s1 \<and> os \<le> s1 \<and>
          sharp_webp E inp (startQuality isWebP - 40) = Inr s2 \<and> os \<le> s2 \<and>
          (isWebP \<longrightarrow> 512 \<le> s2) \<and> unlink_fault E out = None \<longrightarrow>
          fst (optimizeWebP E inp out os isWebP w) = sharp_webp E inp 20 \<and>
          calls (snd (optimizeWebP E inp out os isWebP w)) =
            calls w @ [startQuality isWebP, startQuality isWebP - 20,
                       startQuality isWebP - 40, 20])
   \<and> length (calls (snd (optimizeWebP E inp out os isWebP w))) \<le> length (calls w) + 4"
  (is "?trace \<and> ?init \<and> ?retry \<and> ?fallback \<and> ?done \<and> ?exhausted \<and> ?bound")
proof -
  let ?q = "startQuality isWebP"
  obtain r w1 where sr: "search E inp out os ?q 0 w = (r, w1)" by (cases "search E inp out os ?q 0 w")
  obtain n where n: "1 \<le> n" "n \<le> 3" "calls w1 = calls w @ take n [?q, ?q - 20, ?q - 40]"
    using search_calls0 [of E inp out os ?q w] sr by auto
  have opt_calls: "calls (snd (optimizeWebP E inp out os isWebP w)) = calls w1 \<or>
                   calls (snd (optimizeWebP E inp out os isWebP w)) = calls w1 @ [20]"
    using sr by (auto simp: optimizeWebP_def toFile_def stat_def Let_def update_conv'
                      split: sum.splits)
  have trace: ?trace
    using opt_calls n by (metis append.right_neutral append_assoc)
  have init: ?init by (simp add: startQuality_def)
  have retry: ?retry
    by (intro allI impI, subst search_unfold)
       (simp add: maxAttempts_def retried_def delete_conv')
  have fallback: ?fallback
    by (auto simp: optimizeWebP_def toFile_def stat_def Let_def update_conv' split: sum.splits)
  have done': ?done
    by (auto simp: optimizeWebP_def)
  have exhausted: ?exhausted
    using exhausted_then_fallback [of E inp isWebP _ os _ _ out w] by blast
  have bound: ?bound
    using opt_calls n by auto
  from trace init retry fallback done' exhausted bound show ?thesis by blast
qed

text \<open>
  Scenario B of the specification: a WebP source of 2,000 bytes that every encode
  reproduces at 2,000 bytes is tried at 50, 30 and 10, then at 20.
\<close>

theorem quality_search_steps_witness:
  "search (quiet_env (\<lambda>q. Inr 2000)) (''uploads'', ''tmp3'') (''public/s1'', ''logo.webp'')
       2000 (startQuality True) 0 disk =
     (Inr 2000,
      disk\<lparr>files := files disk @ [((''public/s1'', ''logo.webp''), 2000)],
           calls := [50, 30, 10]\<rparr>)
   \<and> fst (optimizeWebP (quiet_env (\<lambda>q. Inr 2000)) (''uploads'', ''tmp3'')
           (''public/s1'', ''logo.webp'') 2000 True disk) = Inr 2000
   \<and> calls (snd (optimizeWebP (quiet_env (\<lambda>q. Inr 2000)) (''uploads'', ''tmp3'')
           (''public/s1'', ''logo.webp'') 2000 True disk)) = [50, 30, 10, 20]"
  using quality_search_steps [of "quiet_env (\<lambda>q. Inr 2000)" "(''uploads'', ''tmp3'')"
          "(''public/s1'', ''logo.webp'')" 2000 True disk]
  by (simp add: run_defs search_unfold retried_def)

section \<open>Skipped and Converted outcomes\<close>

text \<open>
  Claim C4: for every per-file outcome, if the transcoder's returned size is at least the
  measured original size, the output file is deleted and the outcome is Skipped with
  convertedSizeBytes equal to originalSizeBytes and an empty downloadPath; otherwise the
  outcome is Converted with the real convertedSizeBytes (strictly less than
  originalSizeBytes) and a non-empty downloadPath of the form
  /download/{session}/{basename}.webp.

  \<open>osize\<close> is the size measured by \<^verbatim>\<open>stat\<close> on the temporary upload, \<open>csize\<close> the size
  that \<^verbatim>\<open>optimizeWebP\<close> returns. The outcome is the entry that the file adds to
  \<^verbatim>\<open>fileSizes\<close> at the first free position, with the entry of \<^verbatim>\<open>downloadUrls\<close> at the
  same position. Deleting the output must be possible for it to be deleted.
\<close>

theorem skipped_or_converted:
  assumes "stat (path f) (fsys j) = (Inr osize, wa)"
    and "optimizeWebP E (path f) (outputDir, outputFilename E f) osize
           (mimetype f = ''image/webp'') wa = (Inr csize, wb)"
    and "osize \<le> csize \<Longrightarrow> unlink_fault E (outputDir, outputFilename E f) = None"
  shows "if osize \<le> csize
         then fileSizes (process_file E sessionId outputDir j f) ! length (fileSizes j) =
                \<lparr>originalName = originalname f, originalSize = osize,
                  convertedSize = osize, skipped = True, error = False, errorDetail = None\<rparr>
              \<and> status_of (fileSizes (process_file E sessionId outputDir j f) !
                   length (fileSizes j)) = Skipped
              \<and> downloadUrls (process_file E sessionId outputDir j f) !
                   length (downloadUrls j) = ''''
              \<and> map_of (files (fsys (process_file E sessionId outputDir j f)))
                   (outputDir, outputFilename E f) = None
         else fileSizes (process_file E sessionId outputDir j f) ! length (fileSizes j) =
                \<lparr>originalName = originalname f, originalSize = osize,
                  convertedSize = csize, skipped = False, error = False, errorDetail = None\<rparr>
              \<and> status_of (fileSizes (process_file E sessionId outputDir j f) !
                   length (fileSizes j)) = Converted
              \<and> csize < osize
              \<and> downloadUrls (process_file E sessionId outputDir j f) !
                   length (downloadUrls j) =
                  ''/download/'' @ sessionId @ ''/'' @ stem E (originalname f) @ ''.webp''
              \<and> downloadUrls (process_file E sessionId outputDir j f) !
                   length (downloadUrls j) \<noteq> ''''"
proof -
  let ?out = "(outputDir, outputFilename E f)"
  have present: "map_of (files wb) ?out = Some csize"
    using assms(2) by (rule optimizeWebP_file)
  show ?thesis
  proof (cases "osize \<le> csize")
    case True
    then have "unlink_fault E ?out = None" by (rule assms(3))
    with present have ul: "unlink E ?out wb = (Inr (), wb\<lparr>files := AList.delete ?out (files wb)\<rparr>)"
      by (simp add: unlink_def)
    let ?j1 = "\<lparr>fileSizes = fileSizes j @
                   [\<lparr>originalName = originalname f, originalSize = osize,
                     convertedSize = osize, skipped = True, error = False, errorDetail = None\<rparr>],
                 downloadUrls = downloadUrls j @ [''''],
                 fsys = wb\<lparr>files := AList.delete ?out (files wb)\<rparr>\<rparr>"
    have pf: "process_file E sessionId outputDir j f = cleanup E f ?j1"
      using assms(1,2) True ul by (simp add: process_file_def Let_def)
    obtain fs us where app: "fileSizes (cleanup E f ?j1) = fileSizes ?j1 @ fs"
      "downloadUrls (cleanup E f ?j1) = downloadUrls ?j1 @ us"
      using cleanup_lists [of E f ?j1] by blast
    have "map_of (files (fsys (cleanup E f ?j1))) ?out = None"
      by (rule cleanup_keeps_absent) (simp add: delete_conv')
    with True pf app show ?thesis
      by (simp add: nth_append status_of_def)
  next
    case False
    let ?j1 = "\<lparr>fileSizes = fileSizes j @
                   [\<lparr>originalName = originalname f, originalSize = osize,
                     convertedSize = csize, skipped = False, error = False, errorDetail = None\<rparr>],
                 downloadUrls = downloadUrls j @
                   [''/download/'' @ sessionId @ ''/'' @ outputFilename E f],
                 fsys = wb\<rparr>"
    have pf: "process_file E sessionId outputDir j f = cleanup E f ?j1"
      using assms(1,2) False by (simp add: process_file_def Let_def)
    obtain fs us where app: "fileSizes (cleanup E f ?j1) = fileSizes ?j1 @ fs"
      "downloadUrls (cleanup E f ?j1) = downloadUrls ?j1 @ us"
      using cleanup_lists [of E f ?j1] by blast
    with False pf show ?thesis
      by (simp add: nth_append status_of_def outputFilename_def)
  qed
qed

text \<open>
  Scenario A of the specification (1,000,000 bytes encoded to 400,000 at quality 70 is
  Converted), and a source of 1,000,000 bytes that every encode reproduces at the same
  size (Skipped, output removed).
\<close>

theorem skipped_or_converted_witness:
  "stat (path photo) disk = (Inr 1000000, disk)
   \<and> fst (optimizeWebP (quiet_env (\<lambda>q. Inr 400000)) (path photo) (''public/s1'', ''photo.webp'')
           1000000 False disk) = Inr 400000
   \<and> fileSizes (process_file (quiet_env (\<lambda>q. Inr 400000)) ''s1'' ''public/s1''
                  \<lparr>fileSizes = [], downloadUrls = [], fsys = disk\<rparr> photo) ! 0 =
       \<lparr>originalName = ''photo.jpg'', originalSize = 1000000, convertedSize = 400000,
         skipped = False, error = False, errorDetail = None\<rparr>
   \<and> downloadUrls (process_file (quiet_env (\<lambda>q. Inr 400000)) ''s1'' ''public/s1''
                  \<lparr>fileSizes = [], downloadUrls = [], fsys = disk\<rparr> photo) ! 0 =
       ''/download/s1/photo.webp''
   \<and> fst (optimizeWebP (quiet_env (\<lambda>q. Inr 1000000)) (path photo) (''public/s1'', ''photo.webp'')
           1000000 False disk) = Inr 1000000
   \<and> unlink_fault (quiet_env (\<lambda>q. Inr 1000000)) (''public/s1'', ''photo.webp'') = None
   \<and> fileSizes (process_file (quiet_env (\<lambda>q. Inr 1000000)) ''s1'' ''public/s1''
                  \<lparr>fileSizes = [], downloadUrls = [], fsys = disk\<rparr> photo) ! 0 =
       \<lparr>originalName = ''photo.jpg'', originalSize = 1000000, convertedSize = 1000000,
         skipped = True, error = False, errorDetail = None\<rparr>
   \<and> downloadUrls (process_file (quiet_env (\<lambda>q. Inr 1000000)) ''s1'' ''public/s1''
                  \<lparr>fileSizes = [], downloadUrls = [], fsys = disk\<rparr> photo) ! 0 = ''''
   \<and> map_of (files (fsys (process_file (quiet_env (\<lambda>q. Inr 1000000)) ''s1'' ''public/s1''
                  \<lparr>fileSizes = [], downloadUrls = [], fsys = disk\<rparr> photo)))
         (''public/s1'', ''photo.webp'') = None"
proof -
  let ?j = "\<lparr>fileSizes = [], downloadUrls = [], fsys = disk\<rparr>"
  let ?out = "(''public/s1'', ''photo.webp'')"
  have st: "stat (path photo) (fsys ?j) = (Inr 1000000, disk)"
    by (simp add: stat_def photo_def disk_def)
  have a: "optimizeWebP (quiet_env (\<lambda>q. Inr 400000)) (path photo)
             (''public/s1'', outputFilename (quiet_env (\<lambda>q. Inr 400000)) photo) 1000000
             (mimetype photo = ''image/webp'') disk =
           (Inr 400000,
            disk\<lparr>calls := [70], files := files disk @ [(?out, 400000)]\<rparr>)"
    by (simp add: run_defs search_unfold)
  have b: "optimizeWebP (quiet_env (\<lambda>q. Inr 1000000)) (path photo)
             (''public/s1'', outputFilename (quiet_env (\<lambda>q. Inr 1000000)) photo) 1000000
             (mimetype photo = ''image/webp'') disk =
           (Inr 1000000,
            disk\<lparr>calls := [70, 50, 30, 20], files := files disk @ [(?out, 1000000)]\<rparr>)"
    by (simp add: run_defs search_unfold retried_def)
  have nf: "unlink_fault (quiet_env (\<lambda>q. Inr 1000000))
              (''public/s1'', outputFilename (quiet_env (\<lambda>q. Inr 1000000)) photo) = None"
    by (simp add: quiet_env_def)
  have name: "outputFilename (quiet_env enc) photo = ''photo.webp''" for enc
    by (simp add: outputFilename_def quiet_env_def photo_def)
  have stem: "stem (quiet_env enc) (originalname photo) = ''photo''" for enc
    by (simp add: quiet_env_def photo_def)
  note conv = skipped_or_converted [OF st a, of "''s1''"]
  note skip = skipped_or_converted [OF st b nf, of "''s1''"]
  from conv skip a b nf st show ?thesis
    by (simp add: outputFilename_def photo_def quiet_env_def)
qed

section \<open>The archive link of a batch\<close>

text \<open>
  Claim C8: for every batch response, zipDownloadUrl equals /download-zip/{session} if and
  only if at least one outcome has status Converted, and equals the empty string otherwise
  (in particular when every outcome is Skipped or Failed).
\<close>

theorem zip_url_iff_converted:
  assumes "convert E hdr req_files w = (Conversion urls zurl outs, w')"
  shows "(zurl = ''/download-zip/'' @ sessionId_of E hdr \<longleftrightarrow>
            (\<exists>e\<in>set outs. status_of e = Converted))
       \<and> zurl = (if \<exists>e\<in>set outs. status_of e = Converted
                 then ''/download-zip/'' @ sessionId_of E hdr else [])"
proof -
  have z: "zurl = zipDownloadUrl (sessionId_of E hdr) outs"
    using assms by (rule convert_200)
  have every: "list_all (\<lambda>f. error f \<or> skipped f) outs = (\<not> (\<exists>e\<in>set outs. status_of e = Converted))"
    by (auto simp: list_all_iff status_of_def)
  show ?thesis
  proof (cases "\<exists>e\<in>set outs. status_of e = Converted")
    case True
    then have "outs \<noteq> []" by auto
    with True z every show ?thesis by (simp add: zipDownloadUrl_def)
  next
    case False
    with z every show ?thesis by (simp add: zipDownloadUrl_def)
  qed
qed

text \<open>
  A batch of a JPEG that shrinks to 400,000 bytes and a WebP that does not shrink: one
  outcome Converted, one Skipped, and the archive link of session \<open>s1\<close>.
\<close>

theorem zip_url_iff_converted_witness:
  "fst (convert (quiet_env (\<lambda>q. Inr 400000)) (Some ''s1'') [photo, logo] disk) =
     Conversion [''/download/s1/photo.webp'', ''''] ''/download-zip/s1''
       [\<lparr>originalName = ''photo.jpg'', originalSize = 1000000, convertedSize = 400000,
         skipped = False, error = False, errorDetail = None\<rparr>,
        \<lparr>originalName = ''logo.webp'', originalSize = 2000, convertedSize = 2000,
         skipped = True, error = False, errorDetail = None\<rparr>]
   \<and> ''/download-zip/s1'' = ''/download-zip/'' @ sessionId_of (quiet_env (\<lambda>q. Inr 400000)) (Some ''s1'')
   \<and> status_of \<lparr>originalName = ''photo.jpg'', originalSize = 1000000, convertedSize = 400000,
         skipped = False, error = False, errorDetail = None\<rparr> = Converted"
proof -
  let ?E = "quiet_env (\<lambda>q. Inr 400000)"
  let ?outs = "[\<lparr>originalName = ''photo.jpg'', originalSize = 1000000, convertedSize = 400000,
         skipped = False, error = False, errorDetail = None\<rparr>,
        \<lparr>originalName = ''logo.webp'', originalSize = 2000, convertedSize = 2000,
         skipped = True, error = False, errorDetail = None\<rparr>]"
  have run: "convert ?E (Some ''s1'') [photo, logo] disk =
          (Conversion [''/download/s1/photo.webp'', ''''] ''/download-zip/s1'' ?outs,
           snd (convert ?E (Some ''s1'') [photo, logo] disk))"
  proof (rule prod_eqI)
    show "fst (convert ?E (Some ''s1'') [photo, logo] disk) =
          fst (Conversion [''/download/s1/photo.webp'', ''''] ''/download-zip/s1'' ?outs,
               snd (convert ?E (Some ''s1'') [photo, logo] disk))"
      by (simp add: run_defs search_unfold retried_def)
  qed (simp only: snd_conv)
  have "fst (convert ?E (Some ''s1'') [photo, logo] disk) =
          Conversion [''/download/s1/photo.webp'', ''''] ''/download-zip/s1'' ?outs"
    by (subst run) (simp only: fst_conv)
  with zip_url_iff_converted [OF run] show ?thesis
    by (simp add: status_of_def sessionId_of_def)
qed

section \<open>The sizes of a Failed outcome\<close>

text \<open>
  Claim C10: for every file whose processing ends with a Failed outcome, the recorded
  originalSize and convertedSize both equal the declared upload size provided by intake
  (not a size measured from disk), the outcome carries error: true, and the corresponding
  downloadUrls entry is the empty string.

  The two lists of the response have the same length, so the corresponding entry of
  \<^verbatim>\<open>downloadUrls\<close> is the one at the same index.
\<close>

theorem failed_outcome_declared_size:
  assumes "convert E hdr req_files w = (Conversion urls zurl outs, w')"
  shows "length urls = length outs \<and>
         (\<forall>i<length outs. status_of (outs ! i) = Failed \<longrightarrow>
            error (outs ! i) \<and> urls ! i = '''' \<and>
            (\<exists>f\<in>set req_files.
               originalName (outs ! i) = originalname f \<and>
               originalSize (outs ! i) = size_declared f \<and>
               convertedSize (outs ! i) = size_declared f))"
proof -
  note j = convert_200 [OF assms]
  from batch_appends [of E "sessionId_of E hdr" "''public/'' @ sessionId_of E hdr"
         "\<lparr>fileSizes = [], downloadUrls = [],
           fsys = w\<lparr>dirs := List.insert (''public/'' @ sessionId_of E hdr) (dirs w)\<rparr>\<rparr>" req_files]
  have all: "list_all2 (\<lambda>e u. list_ex (\<lambda>f. declared f e u) req_files \<or> \<not> error e) outs urls"
    using j(1,2) by auto
  then have len: "length urls = length outs" by (simp add: list_all2_lengthD)
  have "error (outs ! i) \<and> urls ! i = '''' \<and>
        (\<exists>f\<in>set req_files.
           originalName (outs ! i) = originalname f \<and>
           originalSize (outs ! i) = size_declared f \<and>
           convertedSize (outs ! i) = size_declared f)"
    if "i < length outs" "status_of (outs ! i) = Failed" for i
  proof -
    from that(2) have e: "error (outs ! i)"
      by (simp add: status_of_def split: if_splits)
    from all that(1) have "list_ex (\<lambda>f. declared f (outs ! i) (urls ! i)) req_files \<or> \<not> error (outs ! i)"
      by (simp add: list_all2_conv_all_nth)
    with e obtain f where "f \<in> set req_files" "declared f (outs ! i) (urls ! i)"
      by (auto simp: list_ex_iff)
    with e show ?thesis by (auto simp: declared_def)
  qed
  with len show ?thesis by blast
qed

text \<open>
  An upload declared with 123 bytes whose temporary file measures 1,000,000 bytes and
  which the encoder rejects: both recorded sizes are 123.
\<close>

theorem failed_outcome_declared_size_witness:
  "fst (convert (quiet_env (\<lambda>q. Inl ''Input file contains unsupported image format''))
          (Some ''s1'') [photo\<lparr>size_declared := 123\<rparr>] disk) =
     Conversion [''''] ''''
       [\<lparr>originalName = ''photo.jpg'', originalSize = 123, convertedSize = 123,
         skipped = False, error = True,
         errorDetail = Some ''Input file contains unsupported image format''\<rparr>]
   \<and> stat (path (photo\<lparr>size_declared := 123\<rparr>)) disk = (Inr 1000000, disk)
   \<and> status_of \<lparr>originalName = ''photo.jpg'', originalSize = 123, convertedSize = 123,
         skipped = False, error = True,
         errorDetail = Some ''Input file contains unsupported image format''\<rparr> = Failed
   \<and> size_declared (photo\<lparr>size_declared := 123\<rparr>) = 123"
proof -
  let ?E = "quiet_env (\<lambda>q. Inl ''Input file contains unsupported image format'')"
  let ?e = "\<lparr>originalName = ''photo.jpg'', originalSize = 123, convertedSize = 123,
         skipped = False, error = True,
         errorDetail = Some ''Input file contains unsupported image format''\<rparr>"
  have run: "convert ?E (Some ''s1'') [photo\<lparr>size_declared := 123\<rparr>] disk =
          (Conversion [''''] '''' [?e],
           snd (convert ?E (Some ''s1'') [photo\<lparr>size_declared := 123\<rparr>] disk))"
  proof (rule prod_eqI)
    show "fst (convert ?E (Some ''s1'') [photo\<lparr>size_declared := 123\<rparr>] disk) =
          fst (Conversion [''''] '''' [?e],
               snd (convert ?E (Some ''s1'') [photo\<lparr>size_declared := 123\<rparr>] disk))"
      by (simp add: run_defs search_unfold)
  qed (simp only: snd_conv)
  have measured: "stat (path (photo\<lparr>size_declared := 123\<rparr>)) disk = (Inr 1000000, disk)"
    by (simp add: stat_def photo_def disk_def)
  have "fst (convert ?E (Some ''s1'') [photo\<lparr>size_declared := 123\<rparr>] disk) =
          Conversion [''''] '''' [?e]"
    by (subst run) (simp only: fst_conv)
  with failed_outcome_declared_size [OF run] measured show ?thesis
    by (simp add: status_of_def)
qed

section \<open>Outputs below the minimum viable size\<close>

text \<open>
  Claim C2: for every transcode attempt, if the resulting encoded size is below the
  minimum viable size of 512 bytes, the transcoder fails with TooSmallOutput (the file's
  outcome is Failed, its errorDetail mentions the output being too small, and its
  downloadPath is empty), regardless of how the resulting size compares to the original
  size.

  As stated this does not hold of \<^verbatim>\<open>optimizeWebP\<close>. The test of line 135 is the
  \<^verbatim>\<open>else if\<close> of the retry test of line 130, and the encode at quality 20 after the
  loop is returned as it is. So a JPEG of 1,000,000 bytes whose first three encodes do not
  shrink it and whose encode at quality 20 yields 300 bytes is Converted with 300 bytes;
  and a PNG of 200 bytes that every encode turns into 300 bytes is retried, not failed,
  and ends Skipped.
\<close>

theorem too_small_output_accepted:
  "sharp_webp (quiet_env (\<lambda>q. if q = 20 then Inr 300 else Inr 1000000)) (path photo) 20 = Inr 300
   \<and> (300::nat) < 512
   \<and> fst (convert (quiet_env (\<lambda>q. if q = 20 then Inr 300 else Inr 1000000)) (Some ''s1'')
            [photo] disk) =
       Conversion [''/download/s1/photo.webp''] ''/download-zip/s1''
         [\<lparr>originalName = ''photo.jpg'', originalSize = 1000000, convertedSize = 300,
           skipped = False, error = False, errorDetail = None\<rparr>]
   \<and> sharp_webp (quiet_env (\<lambda>q. Inr 300)) (path icon) 70 = Inr 300
   \<and> fst (convert (quiet_env (\<lambda>q. Inr 300)) (Some ''s1'') [icon] disk) =
       Conversion [''''] ''''
         [\<lparr>originalName = ''icon.png'', originalSize = 200, convertedSize = 200,
           skipped = True, error = False, errorDetail = None\<rparr>]"
  by (simp add: run_defs search_unfold retried_def)

text \<open>
  Claim C2 as amended: an attempt of the search loop (the first, second or third encode)
  whose size is below 512 bytes and which is not retried, because its size is below the
  original size or its quality is no longer above 10, makes the transcoder fail: the file's
  one outcome is Failed, its errorDetail is \<^verbatim>\<open>Converted file size too small\<close> and its
  entry of \<^verbatim>\<open>downloadUrls\<close> is empty. The attempt is the one after \<open>k\<close> retries, at
  quality start - 20 * k.
\<close>

theorem too_small_attempt_fails:
  assumes "stat (path f) (fsys j) = (Inr osize, wa)"
    and "k < 3"
    and "\<forall>i<k. \<exists>s. sharp_webp E (path f)
                   (startQuality (mimetype f = ''image/webp'') - 20 * int i) = Inr s \<and> osize \<le> s"
    and "0 < k \<Longrightarrow> unlink_fault E (outputDir, outputFilename E f) = None"
    and "sharp_webp E (path f) (startQuality (mimetype f = ''image/webp'') - 20 * int k) = Inr s"
    and "s < 512"
    and "s < osize \<or> startQuality (mimetype f = ''image/webp'') - 20 * int k \<le> 10"
  shows "fileSizes (process_file E sessionId outputDir j f) =
           fileSizes j @ [\<lparr>originalName = originalname f, originalSize = size_declared f,
                           convertedSize = size_declared f, skipped = False, error = True,
                           errorDetail = Some ''Converted file size too small''\<rparr>]
       \<and> status_of (last (fileSizes (process_file E sessionId outputDir j f))) = Failed
       \<and> downloadUrls (process_file E sessionId outputDir j f) = downloadUrls j @ ['''']"
proof -
  let ?q = "startQuality (mimetype f = ''image/webp'')"
  let ?out = "(outputDir, outputFilename E f)"
  have retried: "\<forall>i<k. \<exists>s. sharp_webp E (path f) (?q - 20 * int i) = Inr s \<and> osize \<le> s \<and>
                   10 < ?q - 20 * int i"
  proof (intro allI impI)
    fix i assume i: "i < k"
    with assms(2) have "i \<le> 1" by simp
    then have "10 < ?q - 20 * int i" by (auto simp: startQuality_def)
    with assms(3) i show "\<exists>s. sharp_webp E (path f) (?q - 20 * int i) = Inr s \<and> osize \<le> s \<and>
                   10 < ?q - 20 * int i" by blast
  qed
  have "fst (search E (path f) ?out osize ?q 0 wa) = Inl too_small"
    using assms(2) retried assms(4-7)
    by (intro search_too_small [where k = k and s = s]) (simp_all add: maxAttempts_def)
  then have "fst (optimizeWebP E (path f) ?out osize (mimetype f = ''image/webp'') wa) =
               Inl ''Converted file size too small''"
    by (auto simp: optimizeWebP_def too_small_def split: prod.splits sum.splits)
  from process_file_error [OF assms(1) this] show ?thesis
    by (simp add: status_of_def)
qed

text \<open>
  A JPEG of 1,000,000 bytes whose encode at quality 70 does not shrink it and whose encode
  at quality 50 yields 300 bytes.
\<close>

theorem too_small_attempt_fails_witness:
  "stat (path photo) disk = (Inr 1000000, disk)
   \<and> sharp_webp (quiet_env (\<lambda>q. if q = 70 then Inr 1000000 else Inr 300)) (path photo) 70 =
       Inr 1000000
   \<and> sharp_webp (quiet_env (\<lambda>q. if q = 70 then Inr 1000000 else Inr 300)) (path photo) 50 =
       Inr 300
   \<and> fileSizes (process_file (quiet_env (\<lambda>q. if q = 70 then Inr 1000000 else Inr 300))
                  ''s1'' ''public/s1'' \<lparr>fileSizes = [], downloadUrls = [], fsys = disk\<rparr> photo) =
       [\<lparr>originalName = ''photo.jpg'', originalSize = 1000000, convertedSize = 1000000,
         skipped = False, error = True,
         errorDetail = Some ''Converted file size too small''\<rparr>]
   \<and> downloadUrls (process_file (quiet_env (\<lambda>q. if q = 70 then Inr 1000000 else Inr 300))
                  ''s1'' ''public/s1'' \<lparr>fileSizes = [], downloadUrls = [], fsys = disk\<rparr> photo) =
       ['''']"
proof -
  let ?E = "quiet_env (\<lambda>q. if q = 70 then Inr 1000000 else Inr 300)"
  let ?j = "\<lparr>fileSizes = [], downloadUrls = [], fsys = disk\<rparr>"
  let ?q = "startQuality (mimetype photo = ''image/webp'')"
  have st: "stat (path photo) (fsys ?j) = (Inr 1000000, disk)"
    by (simp add: stat_def photo_def disk_def)
  have k: "(1::nat) < 3" by simp
  have before: "\<forall>i<(1::nat). \<exists>s. sharp_webp ?E (path photo) (?q - 20 * int i) = Inr s \<and> 1000000 \<le> s"
    by (simp add: quiet_env_def startQuality_def photo_def)
  have nf: "unlink_fault ?E (''public/s1'', outputFilename ?E photo) = None"
    by (simp add: quiet_env_def)
  have at: "sharp_webp ?E (path photo) (?q - 20 * int 1) = Inr 300"
    by (simp add: quiet_env_def startQuality_def photo_def)
  have small: "(300::nat) < 512" "(300::nat) < 1000000 \<or> ?q - 20 * int 1 \<le> 10"
    by simp_all
  from too_small_attempt_fails [OF st k before nf at small, of "''s1''"] st
  show ?thesis
    by (simp add: photo_def quiet_env_def)
qed

section \<open>The archive of a session without files\<close>

text \<open>
  Claim C5: for every archive-download request whose session directory is empty or
  absent, the archive builder fails with NoFilesAvailable and the response is a NotFound
  (404) error.

  The handler answers 404 for a directory without entries (line 69), as the last conjunct
  shows for the empty directory of session \<open>s2\<close>. For a session whose directory does not
  exist, \<^verbatim>\<open>readdir\<close> at line 68 throws before that test is reached, and the
  \<^verbatim>\<open>catch\<close> of line 101 answers 500 with the ENOENT message: the request for session
  \<open>ghost\<close> below.
\<close>

theorem absent_session_500:
  "download_zip (quiet_env (\<lambda>q. Inr 0)) ''ghost'' served =
     (ErrorJson 500 ''Failed to create ZIP: ENOENT: no such file or directory'',
      served\<lparr>errlog := [''ZIP creation error: ENOENT: no such file or directory'']\<rparr>)
   \<and> readdir ''public/ghost'' served = (Inl ''ENOENT: no such file or directory'', served)
   \<and> download_zip (quiet_env (\<lambda>q. Inr 0)) ''s2'' (served\<lparr>dirs := ''public/s2'' # dirs served\<rparr>) =
     (ErrorJson 404 ''No files available to zip'', served\<lparr>dirs := ''public/s2'' # dirs served\<rparr>)"
  by (simp add: zip_defs run_defs)

section \<open>The transient archive file\<close>

text \<open>
  Claim C6: every archive build's transient output file is deleted unconditionally on
  every exit path of the retrieval request: after successful delivery, after delivery
  failure, and when compression fails with ArchiveError.

  The only \<^verbatim>\<open>unlink(zipPath)\<close> is in the callback of \<^verbatim>\<open>res.download\<close> (line 99), which
  runs after a successful and after a failed delivery: in the second and third run below
  the disk is afterwards as it was. When the archiver raises, \<^verbatim>\<open>zipPromise\<close> rejects, the
  \<^verbatim>\<open>catch\<close> of line 101 answers 500 and nothing deletes the file that
  \<^verbatim>\<open>createWriteStream\<close> has created: in the first run \<^verbatim>\<open>public/s1.zip\<close> stays on disk.
\<close>

theorem failed_archive_left_behind:
  "download_zip ((quiet_env (\<lambda>q. Inr 0))\<lparr>archiver_zip := (\<lambda>d. Inl ''archive stream failed'')\<rparr>)
      ''s1'' served =
     (ErrorJson 500 ''Failed to create ZIP: archive stream failed'',
      served\<lparr>files := [((''public/s1'', ''photo.webp''), 400000), ((''public'', ''s1.zip''), 0)],
             errlog := [''Archiver error: archive stream failed'',
                        ''ZIP creation error: archive stream failed'']\<rparr>)
   \<and> download_zip (quiet_env (\<lambda>q. Inr 0)) ''s1'' served =
       (Download (''public'', ''s1.zip'') ''converted_images.zip'', served)
   \<and> download_zip ((quiet_env (\<lambda>q. Inr 0))\<lparr>res_download := (\<lambda>p. Some ''Request aborted'')\<rparr>)
        ''s1'' served =
       (ErrorJson 500 ''Failed to download ZIP'',
        served\<lparr>errlog := [''ZIP download error: Request aborted'']\<rparr>)"
  by (simp add: zip_defs run_defs)

section \<open>Batches whose temporary uploads can be deleted\<close>

text \<open>
  Every exit path of a file's processing ends with an attempt to delete its temporary
  upload (line 199 or line 210). Unless the file system rejects that deletion, the
  upload is gone when the next file is processed.
\<close>

lemma unlink_removes:
  "unlink_fault E p = None \<Longrightarrow> map_of (files (snd (unlink E p w))) p = None"
  by (simp add: unlink_def delete_conv' split: option.splits)

lemma on_error_removes:
  "unlink_fault E (path f) = None \<Longrightarrow>
     map_of (files (fsys (on_error E f m j))) (path f) = None"
  by (simp add: on_error_def Let_def console_error_def unlink_def delete_conv'
           split: option.splits)

lemma cleanup_removes:
  "unlink_fault E (path f) = None \<Longrightarrow>
     map_of (files (fsys (cleanup E f j))) (path f) = None"
  by (simp add: cleanup_def unlink_def delete_conv' on_error_removes split: option.splits)

lemma upload_removed:
  "unlink_fault E (path f) = None \<Longrightarrow>
     map_of (files (fsys (process_file E sid dir j f))) (path f) = None"
  by (simp add: process_file_def Let_def on_error_removes cleanup_removes
           split: prod.splits sum.splits)

text \<open>
  The search writes and deletes the output file only. So an upload that is not the output
  file itself is still on disk when line 199 deletes it, the deletion succeeds unless it
  is rejected, and the file contributes exactly one outcome, under its own name: the
  response lists the uploads in their order.
\<close>

lemma search_keeps_others:
  "p \<noteq> out \<Longrightarrow> map_of (files (snd (search E inp out os q a w))) p = map_of (files w) p"
proof (induction q a w rule: search_rule [where E = E and inp = inp and os = os and out = out])
  case (attempt q a w)
  show ?case
  proof (cases "sharp_webp E inp q")
    case (Inl m)
    then show ?thesis by (subst search_unfold) simp
  next
    case (Inr s)
    show ?thesis
    proof (cases "os \<le> s \<and> 10 < q \<and> unlink_fault E out = None \<and> Suc a < maxAttempts")
      case True
      with Inr attempt.IH [OF Inr] attempt.prems show ?thesis
        by (subst search_unfold) (simp add: retried_def update_conv' delete_conv')
    next
      case False
      with Inr attempt.prems show ?thesis
        by (subst search_unfold)
           (auto simp: retried_def update_conv' delete_conv' split: option.splits)
    qed
  qed
qed

lemma optimizeWebP_keeps_others:
  "p \<noteq> out \<Longrightarrow>
     map_of (files (snd (optimizeWebP E inp out os b w))) p = map_of (files w) p"
  using search_keeps_others [of p out E inp os "startQuality b" 0 w]
  by (auto simp: optimizeWebP_def toFile_def stat_def update_conv' Let_def
           split: prod.splits sum.splits option.splits)

lemma one_outcome_per_file:
  assumes "unlink_fault E (path f) = None" and "path f \<noteq> (dir, outputFilename E f)"
  shows "\<exists>e u. fileSizes (process_file E sid dir j f) = fileSizes j @ [e] \<and>
               originalName e = originalname f \<and>
               downloadUrls (process_file E sid dir j f) = downloadUrls j @ [u]"
proof (cases "map_of (files (fsys j)) (path f)")
  case None
  then show ?thesis
    by (simp add: process_file_def stat_def on_error_lists Let_def)
next
  case (Some n)
  let ?out = "(dir, outputFilename E f)"
  let ?b = "mimetype f = ''image/webp''"
  obtain r w' where opt: "optimizeWebP E (path f) ?out n ?b (fsys j) = (r, w')"
    by (cases "optimizeWebP E (path f) ?out n ?b (fsys j)")
  have kept: "map_of (files w') (path f) = Some n"
    using optimizeWebP_keeps_others [OF assms(2), of E "path f" n ?b "fsys j"] opt Some by simp
  have clean: "cleanup E f \<lparr>fileSizes = es, downloadUrls = us, fsys = v\<rparr> =
                 \<lparr>fileSizes = es, downloadUrls = us,
                  fsys = v\<lparr>files := AList.delete (path f) (files v)\<rparr>\<rparr>"
    if "map_of (files v) (path f) = Some n" for es us v
    using that assms(1) by (simp add: cleanup_def unlink_def)
  show ?thesis
  proof (cases r)
    case (Inl m)
    with Some opt show ?thesis
      by (simp add: process_file_def stat_def on_error_lists Let_def)
  next
    case (Inr cs)
    show ?thesis
    proof (cases "n \<le> cs")
      case False
      with Some opt Inr kept show ?thesis
        by (simp add: process_file_def stat_def Let_def clean)
    next
      case True
      obtain r2 w2 where ul: "unlink E ?out w' = (r2, w2)" by (cases "unlink E ?out w'")
      then have kept2: "map_of (files w2) (path f) = Some n"
        using kept assms(2) by (auto simp: unlink_def delete_conv' split: option.splits)
      show ?thesis
      proof (cases r2)
        case (Inl m)
        with Some opt Inr True ul show ?thesis
          by (simp add: process_file_def stat_def on_error_lists Let_def)
      next
        case (Inr u)
        with Some opt \<open>r = Inr cs\<close> True ul kept2 show ?thesis
          by (simp add: process_file_def stat_def Let_def clean)
      qed
    qed
  qed
qed

lemma batch_one_outcome_per_file:
  assumes "\<forall>f\<in>set fs. unlink_fault E (path f) = None \<and> fst (path f) \<noteq> dir"
  shows "map originalName (fileSizes (foldl (process_file E sid dir) j fs)) =
           map originalName (fileSizes j) @ map originalname fs
       \<and> length (downloadUrls (foldl (process_file E sid dir) j fs)) =
           length (downloadUrls j) + length fs"
  using assms
proof (induction fs arbitrary: j)
  case Nil
  show ?case by simp
next
  case (Cons f fs)
  then have "unlink_fault E (path f) = None" "path f \<noteq> (dir, outputFilename E f)"
    by auto
  then obtain e u where
    "fileSizes (process_file E sid dir j f) = fileSizes j @ [e]"
    "originalName e = originalname f"
    "downloadUrls (process_file E sid dir j f) = downloadUrls j @ [u]"
    using one_outcome_per_file [of E f dir sid j] by blast
  moreover have "map originalName (fileSizes (foldl (process_file E sid dir) (process_file E sid dir j f) fs)) =
           map originalName (fileSizes (process_file E sid dir j f)) @ map originalname fs
       \<and> length (downloadUrls (foldl (process_file E sid dir) (process_file E sid dir j f) fs)) =
           length (downloadUrls (process_file E sid dir j f)) + length fs"
    using Cons.prems by (intro Cons.IH) simp
  ultimately show ?case by simp
qed

text \<open>No error of a file reaches the handler's outer \<^verbatim>\<open>catch\<close>: the answer is a 200.\<close>

lemma batch_never_aborts:
  "req_files \<noteq> [] \<Longrightarrow> mkdir_fault E (''public/'' @ sessionId_of E hdr) = None \<Longrightarrow>
     \<exists>urls zurl outs. fst (convert E hdr req_files w) = Conversion urls zurl outs"
  by (simp add: convert_def ensureDir_def Let_def)

section \<open>One outcome per file\<close>

text \<open>
  Claim C7: for every batch and every file in it, any error raised while processing that
  file is caught locally, recorded as that file's Failed outcome carrying the error's
  message, and processing continues with the next file, so the batch result contains
  exactly one outcome per source file in the same order as the input and one file's
  failure never aborts the batch.

  The deletion of the temporary upload at line 199 is inside the \<^verbatim>\<open>try\<close> block, after
  the outcome of the file has been pushed. When it is rejected, the \<^verbatim>\<open>catch\<close> block
  pushes a second entry for the same file. Below, the temporary file of \<open>photo\<close> cannot be
  deleted: the batch of two files is answered with three outcomes and three URLs, and the
  entries at index 1 belong to the first file, not to the second.
\<close>

theorem two_outcomes_for_one_file:
  "fst (convert (locked_env (\<lambda>q. Inr 400000)) (Some ''s1'') [photo, logo] disk) =
     Conversion [''/download/s1/photo.webp'', '''', ''''] ''/download-zip/s1''
       [\<lparr>originalName = ''photo.jpg'', originalSize = 1000000, convertedSize = 400000,
         skipped = False, error = False, errorDetail = None\<rparr>,
        \<lparr>originalName = ''photo.jpg'', originalSize = 1000000, convertedSize = 1000000,
         skipped = False, error = True,
         errorDetail = Some ''EPERM: operation not permitted''\<rparr>,
        \<lparr>originalName = ''logo.webp'', originalSize = 2000, convertedSize = 2000,
         skipped = True, error = False, errorDetail = None\<rparr>]"
  by (simp add: run_defs search_unfold retried_def)

section \<open>Cleanup of the temporary upload\<close>

text \<open>
  Claim C9: for every file in a batch, its temporary upload artifact is deleted exactly
  once, on every exit path of its processing (Converted, Skipped, or Failed), before the
  next file is processed, and a failure of this cleanup itself is logged but never
  propagated to the batch result.

  On the \<^verbatim>\<open>catch\<close> path the deletion has its own \<^verbatim>\<open>.catch\<close> (line 210) and a failure is
  only logged. On the success path (line 199) it has none: the rejected deletion of the
  temporary file of \<open>photo\<close> is reported in the batch result as a Failed outcome whose
  errorDetail is the message of \<^verbatim>\<open>unlink\<close>, after the Converted outcome of the same file;
  the deletion is then attempted a second time, and the file is still on disk.
\<close>

theorem cleanup_failure_reported:
  "convert (locked_env (\<lambda>q. Inr 400000)) (Some ''s1'') [photo] disk =
     (Conversion [''/download/s1/photo.webp'', ''''] ''/download-zip/s1''
        [\<lparr>originalName = ''photo.jpg'', originalSize = 1000000, convertedSize = 400000,
          skipped = False, error = False, errorDetail = None\<rparr>,
         \<lparr>originalName = ''photo.jpg'', originalSize = 1000000, convertedSize = 1000000,
          skipped = False, error = True,
          errorDetail = Some ''EPERM: operation not permitted''\<rparr>],
      \<lparr>files = [((''uploads'', ''tmp1''), 1000000), ((''uploads'', ''tmp2''), 200),
                ((''uploads'', ''tmp3''), 2000), ((''public/s1'', ''photo.webp''), 400000)],
        dirs = [''public/s1'', ''uploads'', ''public''], calls = [70],
        errlog = [''Error processing photo.jpg: EPERM: operation not permitted'',
                  ''Cleanup failed: EPERM: operation not permitted'']\<rparr>)"
  by (simp add: run_defs search_unfold retried_def)

end
